theory Spec2Isabelle
  imports Complex_Main
begin

section \<open>JavaScript values used by \<^verbatim>\<open>unready-fetch.ts\<close>\<close>

text \<open>
  The mock payloads have the generic types \<^verbatim>\<open>S\<close> and \<^verbatim>\<open>E\<close> (both default to
  \<^verbatim>\<open>any\<close> in the interface), so a payload is an arbitrary JavaScript value: a primitive
  (\<^verbatim>\<open>undefined\<close>, \<^verbatim>\<open>null\<close>, a boolean, a number, a string, a bigint, a symbol) or a
  reference to an object. Objects live in a heap and are shared: the caller keeps its
  references to the payloads it passes in, and \<^verbatim>\<open>json()\<close> hands the payload out again.

  A finite number is given by its exact value, a rational; every finite double is one.
  \<^verbatim>\<open>-0\<close> is not distinguished from \<^verbatim>\<open>0\<close>: the operations the source applies to a
  number (truthiness, \<^verbatim>\<open>>=\<close>, \<^verbatim>\<open>??\<close>) treat both alike. A string is given by its UTF-8
  bytes.
\<close>

datatype number = Num rat | NaN | PosInfinity | NegInfinity

type_synonym addr = nat

datatype jsval =
    JUndefined
  | JNull
  | JBool bool
  | JNumber number
  | JString string
  | JBigInt int
  | JSymbol nat
  | JObject addr

text \<open>
  The objects a heap describes: an array with its elements, a plain object with its own
  enumerable string-keyed data properties in enumeration order (distinct keys), and a
  function. A lookup takes the first entry for an address. An address the heap has no entry
  for is an object of some other kind (a \<^verbatim>\<open>Date\<close>, a \<^verbatim>\<open>Promise\<close>, a class instance):
  it is truthy and not nullish like every object, and nothing more is known of it.
\<close>

datatype jsobj = ObjArray "jsval list" | ObjPlain "(string \<times> jsval) list" | ObjFunction

type_synonym heap = "(addr \<times> jsobj) list"

text \<open>\<^verbatim>\<open>ToBoolean\<close>: what \<^verbatim>\<open>!x\<close>, \<^verbatim>\<open>!!x\<close> and \<^verbatim>\<open>x && y\<close> test.\<close>

fun num_truthy :: "number \<Rightarrow> bool" where
  "num_truthy (Num q) = (q \<noteq> 0)"
| "num_truthy NaN = False"
| "num_truthy PosInfinity = True"
| "num_truthy NegInfinity = True"

fun ToBoolean :: "jsval \<Rightarrow> bool" where
  "ToBoolean JUndefined = False"
| "ToBoolean JNull = False"
| "ToBoolean (JBool b) = b"
| "ToBoolean (JNumber n) = num_truthy n"
| "ToBoolean (JString s) = (s \<noteq> [])"
| "ToBoolean (JBigInt k) = (k \<noteq> 0)"
| "ToBoolean (JSymbol k) = True"
| "ToBoolean (JObject a) = True"

text \<open>The operator \<^verbatim>\<open>a ?? d\<close>: \<^verbatim>\<open>d\<close> exactly when \<^verbatim>\<open>a\<close> is \<^verbatim>\<open>undefined\<close> or \<^verbatim>\<open>null\<close>.\<close>

fun nullish_coalesce :: "jsval \<Rightarrow> jsval \<Rightarrow> jsval" where
  "nullish_coalesce JUndefined d = d"
| "nullish_coalesce JNull d = d"
| "nullish_coalesce (JBool b) d = JBool b"
| "nullish_coalesce (JNumber n) d = JNumber n"
| "nullish_coalesce (JString s) d = JString s"
| "nullish_coalesce (JBigInt k) d = JBigInt k"
| "nullish_coalesce (JSymbol k) d = JSymbol k"
| "nullish_coalesce (JObject a) d = JObject a"

text \<open>The comparison \<^verbatim>\<open>a >= b\<close> on numbers; it is false when an operand is \<^verbatim>\<open>NaN\<close>.\<close>

fun num_ge :: "number \<Rightarrow> number \<Rightarrow> bool" where
  "num_ge (Num a) (Num b) = (b \<le> a)"
| "num_ge (Num a) NegInfinity = True"
| "num_ge (Num a) PosInfinity = False"
| "num_ge (Num a) NaN = False"
| "num_ge PosInfinity b = (b \<noteq> NaN)"
| "num_ge NegInfinity b = (b = NegInfinity)"
| "num_ge NaN b = False"

section \<open>The built-ins \<^verbatim>\<open>JSON.stringify\<close> and \<^verbatim>\<open>Promise.resolve\<close>\<close>

text \<open>
  A built-in returns a value or throws. \<open>Not_modelled\<close> marks the calls whose outcome the
  heap does not determine: the built-in would run code of the caller (a \<^verbatim>\<open>toJSON\<close> or
  \<^verbatim>\<open>then\<close> method), meets an object the heap has no entry for, or has to print a number
  that is not an integer of magnitude below \<open>2 ^ 53\<close>. Nothing is asserted about them.
\<close>

datatype 'a host_result = Returns 'a | Throws_TypeError | Not_modelled








text \<open>
  Whether a value may be callable: a function, or an object the heap has no entry for.
  \<open>has_method\<close> tells whether a plain object has an own property of the given name that
  may be callable.
\<close>

definition may_be_callable :: "heap \<Rightarrow> jsval \<Rightarrow> bool" where
  "may_be_callable h v =
     (case v of
        JObject b \<Rightarrow>
          (case map_of h b of None \<Rightarrow> True | Some ObjFunction \<Rightarrow> True
           | Some (ObjArray vs) \<Rightarrow> False | Some (ObjPlain ms) \<Rightarrow> False)
      | _ \<Rightarrow> False)"

definition has_method :: "heap \<Rightarrow> (string \<times> jsval) list \<Rightarrow> string \<Rightarrow> bool" where
  "has_method h ms name =
     (case map_of ms name of None \<Rightarrow> False | Some f \<Rightarrow> may_be_callable h f)"




text \<open>
  \<^verbatim>\<open>Promise.resolve(v)\<close>: the promise it returns is fulfilled with \<^verbatim>\<open>v\<close> unless \<^verbatim>\<open>v\<close> is
  a thenable, an object with a callable \<^verbatim>\<open>then\<close>, which the promise would follow.
\<close>

datatype 'a promise_state = Pending | Fulfilled 'a | Rejected jsval

definition Promise_resolve :: "heap \<Rightarrow> jsval \<Rightarrow> jsval promise_state host_result" where
  "Promise_resolve h v =
     (case v of
        JObject a \<Rightarrow>
          (case map_of h a of
             None \<Rightarrow> Not_modelled
           | Some (ObjPlain ms) \<Rightarrow>
               if has_method h ms ''then'' then Not_modelled else Returns (Fulfilled v)
           | Some (ObjArray vs) \<Rightarrow> Returns (Fulfilled v)
           | Some ObjFunction \<Rightarrow> Returns (Fulfilled v))
      | _ \<Rightarrow> Returns (Fulfilled v))"





section \<open>The data of \<^verbatim>\<open>unready-fetch.ts\<close>\<close>

text \<open>
  \<^verbatim>\<open>interface UnreadyFetchMock { success?: S; error?: E; status?: number }\<close>.
  An optional property is absent (\<open>None\<close>) or holds a value; the value of \<^verbatim>\<open>success\<close>
  or \<^verbatim>\<open>error\<close> may itself be \<^verbatim>\<open>undefined\<close> or \<^verbatim>\<open>null\<close>.
\<close>

record mock =
  success :: "jsval option"
  error :: "jsval option"
  status :: "number option"

text \<open>
  \<^verbatim>\<open>interface UnreadyFetchResponse\<close>. The field \<open>payload\<close> is the variable
  (\<^verbatim>\<open>errData\<close> or \<^verbatim>\<open>data\<close>) that the closures of both methods capture: a value, for an
  object a reference. \<open>resp_status\<close> is the source's \<^verbatim>\<open>status\<close>.
\<close>

record response =
  url :: string
  ok :: bool
  resp_status :: number
  payload :: jsval

text \<open>
  The methods, called in the heap \<open>h\<close> of the moment of the call.
  \<^verbatim>\<open>json() { return Promise.resolve(data) }\<close> and
  \<^verbatim>\<open>text() { return Promise.resolve(JSON.stringify(data)) }\<close> (\<open>resp_text\<close>): the argument
  of the latter \<^verbatim>\<open>Promise.resolve\<close> is a string or \<^verbatim>\<open>undefined\<close>, never a thenable, and
  what \<^verbatim>\<open>JSON.stringify\<close> throws, \<^verbatim>\<open>text()\<close> throws.
\<close>

definition json :: "heap \<Rightarrow> response \<Rightarrow> jsval promise_state host_result" where
  "json h r = Promise_resolve h (payload r)"


text \<open>
  The two constants \<^verbatim>\<open>defaultSuccessResponse\<close> and \<^verbatim>\<open>defaultErrorResponse\<close> are
  references to objects the module creates once, when it is loaded: \<open>module_heap\<close>, at the
  addresses 0 to 4. The heap of a running program holds them together with the objects of
  the caller.
\<close>

definition defaultSuccessResponse :: jsval where
  "defaultSuccessResponse = JObject 0"

definition defaultErrorResponse :: jsval where
  "defaultErrorResponse = JObject 2"

definition module_heap :: heap where
  "module_heap =
     [(0, ObjPlain
            [(''status'', JString ''success''),
             (''code'', JNumber (Num 200)),
             (''data'', JObject 1),
             (''errors'', JNull)]),
      (1, ObjPlain [(''id'', JNumber (Num 123)), (''name'', JString ''Sample Data'')]),
      (2, ObjPlain
            [(''status'', JString ''error''),
             (''code'', JNumber (Num 400)),
             (''data'', JNull),
             (''errors'', JObject 3),
             (''trace_id'', JString ''abc123xyz'')]),
      (3, ObjArray [JObject 4]),
      (4, ObjPlain [(''field'', JString ''email''), (''message'', JString ''Email is required'')])]"

text \<open>
  \<^verbatim>\<open>input: RequestInfo | URL\<close> is a string, a \<^verbatim>\<open>URL\<close> (given by its \<^verbatim>\<open>href\<close>) or a
  \<^verbatim>\<open>Request\<close> (given by its \<^verbatim>\<open>url\<close>). \<^verbatim>\<open>input.toString()\<close> is the string itself, the
  \<^verbatim>\<open>href\<close>, and for a \<^verbatim>\<open>Request\<close> the inherited \<^verbatim>\<open>Object.prototype.toString\<close>.
\<close>

datatype request_info = InputString string | InputURL string | InputRequest string

fun toString :: "request_info \<Rightarrow> string" where
  "toString (InputString s) = s"
| "toString (InputURL href) = href"
| "toString (InputRequest u) = ''[object Request]''"

text \<open>
  An \<^verbatim>\<open>AbortSignal\<close> as the source reads it, and the part of \<^verbatim>\<open>RequestInit\<close> the source
  reads (\<^verbatim>\<open>signal?: AbortSignal | null\<close>; \<open>None\<close> is absent or \<^verbatim>\<open>null\<close>).
\<close>

record abort_signal =
  aborted :: bool
  reason :: jsval

record request_init =
  signal :: "abort_signal option"

section \<open>One call of the function returned by \<^verbatim>\<open>unreadyFetch\<close>\<close>

text \<open>
  The state of one call: the variables its closures capture (\<^verbatim>\<open>mock\<close>, \<^verbatim>\<open>input\<close>, the
  signal object \<^verbatim>\<open>init.signal\<close> refers to), the promise it returned, the timer behind
  \<^verbatim>\<open>timeoutId\<close>, and whether the call registered its \<^verbatim>\<open>abort\<close> listener on the signal.
\<close>

datatype timer_state = Scheduled number | Fired | Cleared

record call_state =
  env_mock :: "mock option"
  env_input :: request_info
  env_signal :: "abort_signal option"
  promise :: "response promise_state"
  timeoutId :: timer_state
  abort_listener :: bool

text \<open>The optional chains \<^verbatim>\<open>mock?.success\<close>, \<^verbatim>\<open>mock?.error\<close> and \<^verbatim>\<open>mock?.status\<close>.\<close>

definition mock_success :: "mock option \<Rightarrow> jsval" where
  "mock_success m =
     (case m of None \<Rightarrow> JUndefined
      | Some r \<Rightarrow> (case success r of None \<Rightarrow> JUndefined | Some v \<Rightarrow> v))"

definition mock_error :: "mock option \<Rightarrow> jsval" where
  "mock_error m =
     (case m of None \<Rightarrow> JUndefined
      | Some r \<Rightarrow> (case error r of None \<Rightarrow> JUndefined | Some v \<Rightarrow> v))"

definition mock_status :: "mock option \<Rightarrow> number option" where
  "mock_status m = (case m of None \<Rightarrow> None | Some r \<Rightarrow> status r)"

text \<open>\<^verbatim>\<open>resolve\<close> and \<^verbatim>\<open>reject\<close> of the promise: only a pending promise is settled.\<close>

definition resolve :: "response \<Rightarrow> call_state \<Rightarrow> call_state" where
  "resolve r s = (if promise s = Pending then s\<lparr>promise := Fulfilled r\<rparr> else s)"

definition reject :: "jsval \<Rightarrow> call_state \<Rightarrow> call_state" where
  "reject v s = (if promise s = Pending then s\<lparr>promise := Rejected v\<rparr> else s)"

text \<open>\<^verbatim>\<open>clearTimeout(timeoutId)\<close>: a timer that has not fired is cancelled.\<close>

definition clearTimeout :: "call_state \<Rightarrow> call_state" where
  "clearTimeout s =
     (case timeoutId s of Scheduled d \<Rightarrow> s\<lparr>timeoutId := Cleared\<rparr> | Fired \<Rightarrow> s | Cleared \<Rightarrow> s)"

text \<open>The condition of the \<^verbatim>\<open>if\<close> in the timer callback (lines 90 to 95).\<close>

definition error_condition :: "mock option \<Rightarrow> bool" where
  "error_condition m =
     ((case mock_status m of None \<Rightarrow> False | Some n \<Rightarrow> num_truthy n \<and> num_ge n (Num 400))
      \<or> (\<not> ToBoolean (mock_success m) \<and> ToBoolean (mock_error m)))"

text \<open>The callback given to \<^verbatim>\<open>setTimeout\<close> (lines 89 to 127).\<close>

definition timeout_callback :: "call_state \<Rightarrow> call_state" where
  "timeout_callback s =
     (let m = env_mock s; input = env_input s in
      if error_condition m then
        (let errData = nullish_coalesce (mock_error m) defaultErrorResponse;
             errResponse =
               \<lparr>url = toString input,
                ok = False,
                resp_status = (case mock_status m of None \<Rightarrow> Num 400 | Some n \<Rightarrow> n),
                payload = errData\<rparr>
         in resolve errResponse s)
      else
        (let data = nullish_coalesce (mock_success m) defaultSuccessResponse;
             resp =
               \<lparr>url = toString input,
                ok = True,
                resp_status = (case mock_status m of None \<Rightarrow> Num 200 | Some n \<Rightarrow> n),
                payload = data\<rparr>
         in resolve resp s))"

text \<open>The listener given to \<^verbatim>\<open>addEventListener("abort", ...)\<close> (lines 131 to 135).\<close>

definition abort_callback :: "call_state \<Rightarrow> call_state" where
  "abort_callback s =
     reject (case env_signal s of None \<Rightarrow> JUndefined | Some g \<Rightarrow> reason g) (clearTimeout s)"

text \<open>
  \<^verbatim>\<open>unreadyFetch(mock, timout)(input, init)\<close>: the state when the call returns its promise.
  The timer is scheduled with \<^verbatim>\<open>timout\<close> (default 1000); the listener is registered when
  \<^verbatim>\<open>init?.signal\<close> is truthy, that is when a signal object is given. Nothing reads
  \<^verbatim>\<open>signal.aborted\<close>. The \<^verbatim>\<open>console.warn\<close> of the factory is not part of the state.
\<close>

definition unreadyFetch ::
  "mock option \<Rightarrow> number option \<Rightarrow> request_info \<Rightarrow> request_init option \<Rightarrow> call_state" where
  "unreadyFetch m timout input init =
     (let delay = (case timout of None \<Rightarrow> Num 1000 | Some d \<Rightarrow> d);
          sg = (case init of None \<Rightarrow> None | Some i \<Rightarrow> signal i)
      in \<lparr>env_mock = m,
          env_input = input,
          env_signal = sg,
          promise = Pending,
          timeoutId = Scheduled delay,
          abort_listener = (sg \<noteq> None)\<rparr>)"

section \<open>The host: timer expiry and abort events\<close>

text \<open>
  What the event loop can deliver to a call after it returned.
  \<^item> \<open>TimerFires\<close>: the delay has elapsed. The host runs the callback of a timer that is
    still scheduled, once; a cleared or fired timer does nothing.
  \<^item> \<open>SignalAborts r\<close>: the owner of the signal aborts it with reason \<open>r\<close>. On a signal
    that is already aborted this does nothing. Otherwise the signal becomes aborted with
    reason \<open>r\<close> and its \<^verbatim>\<open>abort\<close> event is dispatched to the listeners registered so far.
    A call made without a signal cannot receive the event.
\<close>

datatype event = TimerFires | SignalAborts jsval

fun step :: "event \<Rightarrow> call_state \<Rightarrow> call_state" where
  "step TimerFires s =
     (case timeoutId s of
        Scheduled d \<Rightarrow> timeout_callback (s\<lparr>timeoutId := Fired\<rparr>)
      | Fired \<Rightarrow> s
      | Cleared \<Rightarrow> s)"
| "step (SignalAborts r) s =
     (case env_signal s of
        None \<Rightarrow> s
      | Some g \<Rightarrow>
          if aborted g then s
          else (let s' = s\<lparr>env_signal := Some \<lparr>aborted = True, reason = r\<rparr>\<rparr>
                in if abort_listener s' then abort_callback s' else s'))"

fun run :: "call_state \<Rightarrow> event list \<Rightarrow> call_state" where
  "run s [] = s"
| "run s (e # es) = run (step e s) es"

text \<open>The response a settled call resolved with, if it resolved.\<close>

definition resolved :: "call_state \<Rightarrow> response option" where
  "resolved s = (case promise s of Fulfilled r \<Rightarrow> Some r | Pending \<Rightarrow> None | Rejected v \<Rightarrow> None)"

section \<open>Facts about values, callbacks and runs\<close>

lemma num_ge_400_truthy: "num_ge n (Num 400) \<Longrightarrow> num_truthy n"
  by (cases n) auto

lemma timeout_callback_promise:
  "promise s = Pending \<Longrightarrow>
   promise (timeout_callback s) =
     Fulfilled
      (if error_condition (env_mock s) then
        \<lparr>url = toString (env_input s), ok = False,
         resp_status = (case mock_status (env_mock s) of None \<Rightarrow> Num 400 | Some n \<Rightarrow> n),
         payload = nullish_coalesce (mock_error (env_mock s)) defaultErrorResponse\<rparr>
       else
        \<lparr>url = toString (env_input s), ok = True,
         resp_status = (case mock_status (env_mock s) of None \<Rightarrow> Num 200 | Some n \<Rightarrow> n),
         payload = nullish_coalesce (mock_success (env_mock s)) defaultSuccessResponse\<rparr>)"
  by (simp add: timeout_callback_def resolve_def Let_def)

lemma timeout_callback_other:
  "env_mock (timeout_callback s) = env_mock s"
  "env_input (timeout_callback s) = env_input s"
  "env_signal (timeout_callback s) = env_signal s"
  "timeoutId (timeout_callback s) = timeoutId s"
  "abort_listener (timeout_callback s) = abort_listener s"
  by (simp_all add: timeout_callback_def resolve_def Let_def)

lemma timeout_callback_settled:
  "promise s \<noteq> Pending \<Longrightarrow> timeout_callback s = s"
  by (simp add: timeout_callback_def resolve_def Let_def)

lemma abort_callback_promise:
  "promise s = Pending \<Longrightarrow>
   promise (abort_callback s) =
     Rejected (case env_signal s of None \<Rightarrow> JUndefined | Some g \<Rightarrow> reason g)"
  by (simp add: abort_callback_def reject_def clearTimeout_def split: timer_state.splits)

lemma abort_callback_settled:
  "promise s \<noteq> Pending \<Longrightarrow> promise (abort_callback s) = promise s"
  by (simp add: abort_callback_def reject_def clearTimeout_def split: timer_state.splits)

lemma abort_callback_other:
  "env_mock (abort_callback s) = env_mock s"
  "env_input (abort_callback s) = env_input s"
  "env_signal (abort_callback s) = env_signal s"
  "abort_listener (abort_callback s) = abort_listener s"
  "timeoutId (abort_callback s) = (case timeoutId s of Scheduled d \<Rightarrow> Cleared | Fired \<Rightarrow> Fired | Cleared \<Rightarrow> Cleared)"
  by (simp_all add: abort_callback_def reject_def clearTimeout_def split: timer_state.splits)

lemma step_env:
  "env_mock (step e s) = env_mock s"
  "env_input (step e s) = env_input s"
  by (cases e; simp add: timeout_callback_other abort_callback_other Let_def
        split: timer_state.splits option.splits)+

lemma step_settled: "promise s \<noteq> Pending \<Longrightarrow> promise (step e s) = promise s"
  by (cases e)
     (simp_all add: timeout_callback_settled abort_callback_settled Let_def
        split: timer_state.splits option.splits)

lemma run_settled: "promise s \<noteq> Pending \<Longrightarrow> promise (run s es) = promise s"
  by (induction es arbitrary: s) (simp_all add: step_settled)

lemma run_append: "run s (es1 @ es2) = run (run s es1) es2"
  by (induction es1 arbitrary: s) simp_all

lemma call_initial:
  "promise (unreadyFetch m t i init) = Pending"
  "env_mock (unreadyFetch m t i init) = m"
  "env_input (unreadyFetch m t i init) = i"
  "env_signal (unreadyFetch m t i init) = (case init of None \<Rightarrow> None | Some x \<Rightarrow> signal x)"
  "timeoutId (unreadyFetch m t i init) = Scheduled (case t of None \<Rightarrow> Num 1000 | Some d \<Rightarrow> d)"
  "abort_listener (unreadyFetch m t i init) = ((case init of None \<Rightarrow> None | Some x \<Rightarrow> signal x) \<noteq> None)"
  by (simp_all add: unreadyFetch_def Let_def)

lemma timer_first:
  "promise (step TimerFires (unreadyFetch m t i init)) =
     Fulfilled
      (if error_condition m then
        \<lparr>url = toString i, ok = False,
         resp_status = (case mock_status m of None \<Rightarrow> Num 400 | Some n \<Rightarrow> n),
         payload = nullish_coalesce (mock_error m) defaultErrorResponse\<rparr>
       else
        \<lparr>url = toString i, ok = True,
         resp_status = (case mock_status m of None \<Rightarrow> Num 200 | Some n \<Rightarrow> n),
         payload = nullish_coalesce (mock_success m) defaultSuccessResponse\<rparr>)"
  by (simp add: call_initial timeout_callback_promise)

lemma step_pending_fulfilled:
  "promise s = Pending \<Longrightarrow> promise (step e s) = Fulfilled r \<Longrightarrow>
   promise (timeout_callback s) = Fulfilled r"
  by (cases e)
     (auto simp: timeout_callback_promise abort_callback_promise Let_def
        split: timer_state.splits option.splits if_splits)

lemma step_pending_callback:
  "promise s = Pending \<Longrightarrow> promise (step e s) = Pending \<Longrightarrow>
   promise (timeout_callback (step e s)) = promise (timeout_callback s)"
  by (simp add: timeout_callback_promise step_env)

lemma run_fulfilled:
  "promise s = Pending \<Longrightarrow> promise (run s es) = Fulfilled r \<Longrightarrow>
   promise (timeout_callback s) = Fulfilled r"
proof (induction es arbitrary: s)
  case Nil
  then show ?case by simp
next
  case (Cons e es)
  show ?case
  proof (cases "promise (step e s)")
    case Pending
    with Cons.IH [of "step e s"] Cons.prems step_pending_callback [of s e]
    show ?thesis by simp
  next
    case (Fulfilled r')
    with Cons.prems run_settled [of "step e s" es] have "r' = r" by simp
    with Fulfilled Cons.prems step_pending_fulfilled show ?thesis by blast
  next
    case (Rejected v)
    with Cons.prems run_settled [of "step e s" es] show ?thesis by simp
  qed
qed

lemma step_pending_rejected:
  "promise s = Pending \<Longrightarrow> promise (step e s) = Rejected v \<Longrightarrow>
   e = SignalAborts v \<and> (\<exists>g. env_signal s = Some g \<and> \<not> aborted g)"
  by (cases e)
     (auto simp: timeout_callback_promise abort_callback_promise Let_def
        split: timer_state.splits option.splits if_splits)

lemma step_signal_live:
  "env_signal (step e s) = Some g \<Longrightarrow> \<not> aborted g \<Longrightarrow> env_signal s = Some g"
  by (cases e)
     (auto simp: timeout_callback_other abort_callback_other Let_def
        split: timer_state.splits option.splits if_splits)

lemma run_rejected:
  "promise s = Pending \<Longrightarrow> promise (run s es) = Rejected v \<Longrightarrow>
   SignalAborts v \<in> set es \<and> (\<exists>g. env_signal s = Some g \<and> \<not> aborted g)"
proof (induction es arbitrary: s)
  case Nil
  then show ?case by simp
next
  case (Cons e es)
  show ?case
  proof (cases "promise (step e s)")
    case Pending
    with Cons.IH [of "step e s"] Cons.prems
    obtain g where "SignalAborts v \<in> set es" "env_signal (step e s) = Some g" "\<not> aborted g"
      by auto
    with step_signal_live [of e s g] show ?thesis by simp
  next
    case (Fulfilled r)
    with Cons.prems run_settled [of "step e s" es] show ?thesis by simp
  next
    case (Rejected w)
    with Cons.prems run_settled [of "step e s" es] have "w = v" by simp
    with Rejected Cons.prems step_pending_rejected [of s e v] show ?thesis by simp
  qed
qed

lemma step_abort_noop:
  "env_signal s = None \<or> (\<exists>g. env_signal s = Some g \<and> aborted g) \<Longrightarrow> step (SignalAborts v) s = s"
  by (auto split: option.splits)

lemma step_timer_armed:
  "promise s = Pending \<Longrightarrow> timeoutId s = Scheduled d \<Longrightarrow>
   \<exists>r. promise (step TimerFires s) = Fulfilled r"
  by (simp add: timeout_callback_promise)

lemma run_resolves:
  "promise s = Pending \<Longrightarrow> timeoutId s = Scheduled d \<Longrightarrow>
   env_signal s = None \<or> (\<forall>v. SignalAborts v \<notin> set es) \<Longrightarrow>
   TimerFires \<in> set es \<Longrightarrow> \<exists>r. promise (run s es) = Fulfilled r"
proof (induction es arbitrary: s)
  case Nil
  then show ?case by simp
next
  case (Cons e es)
  show ?case
  proof (cases e)
    case TimerFires
    from step_timer_armed [OF Cons.prems(1,2)] obtain r
      where "promise (step TimerFires s) = Fulfilled r" by blast
    with run_settled [of "step TimerFires s" es] TimerFires show ?thesis by simp
  next
    case (SignalAborts v)
    with Cons.prems(3) have "env_signal s = None" by auto
    then have "step e s = s" using SignalAborts by simp
    with Cons.IH [of s] Cons.prems SignalAborts show ?thesis by auto
  qed
qed








lemma module_heap_defaults:
  "Promise_resolve module_heap defaultSuccessResponse = Returns (Fulfilled defaultSuccessResponse)"
  "Promise_resolve module_heap defaultErrorResponse = Returns (Fulfilled defaultErrorResponse)"
  by (simp_all add: Promise_resolve_def module_heap_def defaultSuccessResponse_def
        defaultErrorResponse_def has_method_def)

section \<open>The claims of the specification\<close>

text \<open>
  Claim C1: a call whose \<^verbatim>\<open>options.signal\<close> is already aborted when the call is made
  should reject with the reason of the signal at once, before the delay has elapsed.

  The source registers an \<^verbatim>\<open>abort\<close> listener and never reads \<^verbatim>\<open>signal.aborted\<close>.
  The event of an aborted signal has been dispatched already and is not dispatched again, so
  the listener never runs. At the input below (no mock, delay 1000, a signal aborted with
  reason \<^verbatim>\<open>"stop"\<close>) the promise is pending when the call returns, and when the timer
  fires it is fulfilled with the default success response; no sequence of events rejects it.
\<close>

theorem already_aborted_signal_still_resolves:
  "promise (unreadyFetch None (Some (Num 1000)) (InputString ''/api'')
              (Some \<lparr>signal = Some \<lparr>aborted = True, reason = JString ''stop''\<rparr>\<rparr>)) = Pending
   \<and> map_option ok
        (resolved (step TimerFires
           (unreadyFetch None (Some (Num 1000)) (InputString ''/api'')
              (Some \<lparr>signal = Some \<lparr>aborted = True, reason = JString ''stop''\<rparr>\<rparr>)))) = Some True
   \<and> (\<forall>es v. promise (run
           (unreadyFetch None (Some (Num 1000)) (InputString ''/api'')
              (Some \<lparr>signal = Some \<lparr>aborted = True, reason = JString ''stop''\<rparr>\<rparr>)) es)
         \<noteq> Rejected v)"
proof -
  let ?s = "unreadyFetch None (Some (Num 1000)) (InputString ''/api'')
              (Some \<lparr>signal = Some \<lparr>aborted = True, reason = JString ''stop''\<rparr>\<rparr>)"
  have p: "promise ?s = Pending"
    by (simp add: call_initial)
  have g: "env_signal ?s = Some \<lparr>aborted = True, reason = JString ''stop''\<rparr>"
    by (simp add: call_initial)
  have "map_option ok (resolved (step TimerFires ?s)) = Some True"
    by (simp add: timer_first resolved_def error_condition_def mock_success_def
        mock_error_def mock_status_def del: step.simps)
  moreover have "promise (run ?s es) \<noteq> Rejected v" for es v
    using run_rejected [OF p, of es v] g by auto
  ultimately show ?thesis using p by blast
qed

text \<open>
  Claim C2: a spec whose \<^verbatim>\<open>success\<close> is set, with \<^verbatim>\<open>status\<close> absent or below 400,
  should resolve with \<^verbatim>\<open>ok\<close> true and \<^verbatim>\<open>json()\<close> resolving to \<^verbatim>\<open>spec.success\<close>.

  The source tests \<^verbatim>\<open>!mock?.success && !!mock?.error\<close>, the truthiness of the fields
  where its comment says "mock success not set but mock error is set". At the input
  \<^verbatim>\<open>{success: 0, error: "boom"}\<close> the field \<^verbatim>\<open>success\<close> is set and \<^verbatim>\<open>status\<close> is
  absent, yet the response has \<^verbatim>\<open>ok\<close> false, status 400 and the payload
  \<^verbatim>\<open>"boom"\<close>.
\<close>

theorem success_set_counterexample:
  "success \<lparr>success = Some (JNumber (Num 0)), error = Some (JString ''boom''), status = None\<rparr>
     = Some (JNumber (Num 0))
   \<and> status \<lparr>success = Some (JNumber (Num 0)), error = Some (JString ''boom''), status = None\<rparr>
     = None
   \<and> resolved (step TimerFires
          (unreadyFetch
             (Some \<lparr>success = Some (JNumber (Num 0)), error = Some (JString ''boom''),
                    status = None\<rparr>)
             None (InputString ''/api'') None))
     = Some \<lparr>url = ''/api'', ok = False, resp_status = Num 400, payload = JString ''boom''\<rparr>"
  by (simp add: timer_first resolved_def error_condition_def mock_success_def mock_error_def
        mock_status_def del: step.simps)

text \<open>
  Claim C3: the error branch should be taken exactly when \<^verbatim>\<open>status\<close> is defined and at
  least 400, or \<^verbatim>\<open>success\<close> is undefined and \<^verbatim>\<open>error\<close> is defined.

  The second disjunct of the source tests truthiness
  (\<^verbatim>\<open>!mock?.success && !!mock?.error\<close>), so both directions fail. With
  \<^verbatim>\<open>{success: 0, error: "boom"}\<close> the status is absent and \<^verbatim>\<open>success\<close> is defined, yet
  the error branch is taken. With \<^verbatim>\<open>{error: 0}\<close> the field \<^verbatim>\<open>success\<close> is undefined and
  \<^verbatim>\<open>error\<close> is defined, yet the success branch is taken.
\<close>

theorem error_branch_iff_counterexample:
  "map_option ok
     (resolved (step TimerFires
        (unreadyFetch
           (Some \<lparr>success = Some (JNumber (Num 0)), error = Some (JString ''boom''),
                  status = None\<rparr>)
           None (InputString ''/api'') None))) = Some False
   \<and> mock_status (Some \<lparr>success = Some (JNumber (Num 0)), error = Some (JString ''boom''),
                         status = None\<rparr>) = None
   \<and> mock_success (Some \<lparr>success = Some (JNumber (Num 0)), error = Some (JString ''boom''),
                          status = None\<rparr>) \<noteq> JUndefined
   \<and> map_option ok
       (resolved (step TimerFires
          (unreadyFetch (Some \<lparr>success = None, error = Some (JNumber (Num 0)), status = None\<rparr>)
             None (InputString ''/api'') None))) = Some True
   \<and> mock_success (Some \<lparr>success = None, error = Some (JNumber (Num 0)), status = None\<rparr>)
       = JUndefined
   \<and> mock_error (Some \<lparr>success = None, error = Some (JNumber (Num 0)), status = None\<rparr>)
       \<noteq> JUndefined"
  by (simp add: timer_first resolved_def error_condition_def mock_success_def mock_error_def
        mock_status_def del: step.simps)

text \<open>
  Claim C4: for every spec whose \<^verbatim>\<open>status\<close> is defined and at least 400, when the timer
  fires with no abort before it the promise is fulfilled with a response that has \<^verbatim>\<open>ok\<close>
  false and status \<^verbatim>\<open>spec.status\<close>, whatever \<^verbatim>\<open>success\<close> is; and when \<^verbatim>\<open>error\<close> is
  absent (in particular for status 400 with \<^verbatim>\<open>success\<close> provided) the payload is the
  default error payload: \<^verbatim>\<open>json()\<close> returns \<^verbatim>\<open>Promise.resolve\<close> of it.
\<close>

theorem status_ge_400_resolves_not_ok:
  assumes "status m = Some n" and "num_ge n (Num 400)"
  shows "\<exists>r. resolved (step TimerFires (unreadyFetch (Some m) t i init)) = Some r
           \<and> \<not> ok r
           \<and> resp_status r = n
           \<and> (error m = None \<longrightarrow>
                payload r = defaultErrorResponse
                \<and> (\<forall>h. json h r = Promise_resolve h defaultErrorResponse))"
proof -
  from assms num_ge_400_truthy have "error_condition (Some m)"
    by (simp add: error_condition_def mock_status_def)
  with assms(1) show ?thesis
    by (simp add: timer_first resolved_def mock_status_def mock_error_def json_def
        del: step.simps)
qed

theorem status_ge_400_resolves_not_ok_witness:
  "\<exists>r. resolved (step TimerFires
          (unreadyFetch
             (Some \<lparr>success = Some (JString ''fine''), error = None, status = Some (Num 400)\<rparr>)
             None (InputString ''/api'') None)) = Some r
     \<and> \<not> ok r \<and> resp_status r = Num 400
     \<and> json module_heap r = Returns (Fulfilled defaultErrorResponse)"
  using status_ge_400_resolves_not_ok
    [of "\<lparr>success = Some (JString ''fine''), error = None, status = Some (Num 400)\<rparr>"
        "Num 400" None "InputString ''/api''" None]
  by (auto simp: module_heap_defaults simp del: step.simps)

text \<open>
  Claim C5: when the supplied signal, not yet aborted at the call, fires \<^verbatim>\<open>abort\<close> with
  reason \<open>r\<close> before the timer fires, the promise is rejected with exactly \<open>r\<close>, the timer
  is cleared, a later expiry of the delay changes nothing, and whatever happens afterwards
  the promise stays rejected with \<open>r\<close>.
\<close>

theorem abort_before_timer_rejects:
  assumes "signal init = Some g" and "\<not> aborted g"
  shows "promise (step (SignalAborts r) (unreadyFetch m t i (Some init))) = Rejected r
         \<and> timeoutId (step (SignalAborts r) (unreadyFetch m t i (Some init))) = Cleared
         \<and> step TimerFires (step (SignalAborts r) (unreadyFetch m t i (Some init)))
             = step (SignalAborts r) (unreadyFetch m t i (Some init))
         \<and> promise (run (unreadyFetch m t i (Some init)) (SignalAborts r # es)) = Rejected r"
proof -
  let ?s = "step (SignalAborts r) (unreadyFetch m t i (Some init))"
  from assms have p: "promise ?s = Rejected r"
    by (simp add: call_initial abort_callback_promise)
  from assms have c: "timeoutId ?s = Cleared"
    by (simp add: call_initial abort_callback_other)
  from c have f: "step TimerFires ?s = ?s" by (simp del: step.simps(2))
  from p run_settled [of ?s es] have "promise (run ?s es) = Rejected r" by simp
  with p c f show ?thesis by simp
qed

theorem abort_before_timer_rejects_witness:
  "promise (run (unreadyFetch None None (InputString ''/api'')
                   (Some \<lparr>signal = Some \<lparr>aborted = False, reason = JUndefined\<rparr>\<rparr>))
              [SignalAborts (JString ''cancelled''), TimerFires])
     = Rejected (JString ''cancelled'')"
  using abort_before_timer_rejects
    [of "\<lparr>signal = Some \<lparr>aborted = False, reason = JUndefined\<rparr>\<rparr>"
        "\<lparr>aborted = False, reason = JUndefined\<rparr>" "JString ''cancelled''" None None
        "InputString ''/api''" "[TimerFires]"]
  by (simp del: step.simps run.simps)

text \<open>
  Claim C6: over every sequence of events after a call, the promise is rejected only with the
  reason of an abort of the supplied signal (which was given and not aborted at the call); a
  fulfilled promise carries \<^verbatim>\<open>ok\<close> false exactly when the mock selects the error branch,
  so an application-level error is a resolution; and when no signal was given, or the signal
  never aborts, the promise is fulfilled once the delay has elapsed.
\<close>

theorem rejects_only_on_abort:
  "(promise (run (unreadyFetch m t i init) es) = Rejected v \<longrightarrow>
      SignalAborts v \<in> set es
      \<and> (\<exists>x g. init = Some x \<and> signal x = Some g \<and> \<not> aborted g))
   \<and> (promise (run (unreadyFetch m t i init) es) = Fulfilled r \<longrightarrow>
        ok r = (\<not> error_condition m))
   \<and> (TimerFires \<in> set es \<and>
        (init = None \<or> (\<exists>x. init = Some x \<and> signal x = None)
         \<or> (\<forall>w. SignalAborts w \<notin> set es)) \<longrightarrow>
        (\<exists>r'. promise (run (unreadyFetch m t i init) es) = Fulfilled r'))"
proof (intro conjI impI)
  assume "promise (run (unreadyFetch m t i init) es) = Rejected v"
  with run_rejected [of "unreadyFetch m t i init" es v]
  have "SignalAborts v \<in> set es"
    and "\<exists>g. env_signal (unreadyFetch m t i init) = Some g \<and> \<not> aborted g"
    by (simp_all add: call_initial)
  then show "SignalAborts v \<in> set es"
    and "\<exists>x g. init = Some x \<and> signal x = Some g \<and> \<not> aborted g"
    by (auto simp: call_initial split: option.splits)
next
  assume "promise (run (unreadyFetch m t i init) es) = Fulfilled r"
  with run_fulfilled [of "unreadyFetch m t i init" es r]
  have "promise (timeout_callback (unreadyFetch m t i init)) = Fulfilled r"
    by (simp add: call_initial)
  then show "ok r = (\<not> error_condition m)"
    by (auto simp: timeout_callback_promise call_initial split: if_splits)
next
  assume a: "TimerFires \<in> set es \<and>
        (init = None \<or> (\<exists>x. init = Some x \<and> signal x = None)
         \<or> (\<forall>w. SignalAborts w \<notin> set es))"
  then have "env_signal (unreadyFetch m t i init) = None \<or> (\<forall>w. SignalAborts w \<notin> set es)"
    by (auto simp: call_initial)
  with a run_resolves [of "unreadyFetch m t i init" _ es]
  show "\<exists>r'. promise (run (unreadyFetch m t i init) es) = Fulfilled r'"
    by (simp add: call_initial)
qed

theorem rejects_only_on_abort_witness:
  "\<exists>r'. promise (run (unreadyFetch (Some \<lparr>success = None, error = None, status = Some (Num 500)\<rparr>)
                       None (InputString ''/api'') None)
                  [SignalAborts JNull, TimerFires]) = Fulfilled r' \<and> \<not> ok r'"
proof -
  let ?m = "Some \<lparr>success = None, error = None, status = Some (Num 500)\<rparr>"
  let ?s = "run (unreadyFetch ?m None (InputString ''/api'') None) [SignalAborts JNull, TimerFires]"
  have e: "error_condition ?m"
    by (simp add: error_condition_def mock_status_def)
  from rejects_only_on_abort [of ?m None "InputString ''/api''" None "[SignalAborts JNull, TimerFires]"]
  obtain r' where r': "promise ?s = Fulfilled r'" by auto
  with rejects_only_on_abort [of ?m None "InputString ''/api''" None "[SignalAborts JNull, TimerFires]" _ r'] e
  have "\<not> ok r'" by blast
  with r' show ?thesis by blast
qed

text \<open>
  Claim C7: once the promise of a call has been fulfilled with a response, an abort of the
  signal that comes later, and anything after it, leaves the promise fulfilled with the same
  response.
\<close>

theorem late_abort_is_noop:
  assumes "promise (run (unreadyFetch m t i init) es1) = Fulfilled r"
  shows "promise (run (unreadyFetch m t i init) (es1 @ SignalAborts v # es2)) = Fulfilled r"
proof -
  from assms run_settled [of "run (unreadyFetch m t i init) es1" "SignalAborts v # es2"]
  show ?thesis by (simp add: run_append del: run.simps)
qed

theorem late_abort_is_noop_witness:
  "\<exists>r. promise (run (unreadyFetch None None (InputString ''/api'')
                      (Some \<lparr>signal = Some \<lparr>aborted = False, reason = JUndefined\<rparr>\<rparr>))
                 [TimerFires]) = Fulfilled r
     \<and> promise (run (unreadyFetch None None (InputString ''/api'')
                      (Some \<lparr>signal = Some \<lparr>aborted = False, reason = JUndefined\<rparr>\<rparr>))
                 ([TimerFires] @ SignalAborts (JString ''late'') # [TimerFires])) = Fulfilled r"
proof -
  let ?s = "unreadyFetch None None (InputString ''/api'')
              (Some \<lparr>signal = Some \<lparr>aborted = False, reason = JUndefined\<rparr>\<rparr>)"
  obtain r where r: "promise (run ?s [TimerFires]) = Fulfilled r"
    by (simp add: timer_first del: step.simps)
  from late_abort_is_noop [OF r, of "JString ''late''" "[TimerFires]"] r
  show ?thesis by blast
qed




text \<open>
  Claim C9: with the mock omitted, when the timer fires with no abort before it the promise
  is fulfilled with \<^verbatim>\<open>ok\<close> true, status 200 and the default success payload, of which
  \<^verbatim>\<open>json()\<close> returns \<^verbatim>\<open>Promise.resolve\<close>; and for every mock the \<^verbatim>\<open>url\<close> of the
  response is \<^verbatim>\<open>input.toString()\<close>.
\<close>

theorem omitted_mock_defaults_and_url:
  "resolved (step TimerFires (unreadyFetch None t i init)) =
     Some \<lparr>url = toString i, ok = True, resp_status = Num 200,
           payload = defaultSuccessResponse\<rparr>
   \<and> map_option (json h) (resolved (step TimerFires (unreadyFetch None t i init)))
       = Some (Promise_resolve h defaultSuccessResponse)
   \<and> map_option url (resolved (step TimerFires (unreadyFetch m t i init))) = Some (toString i)"
proof -
  have "\<not> error_condition None"
    by (simp add: error_condition_def mock_status_def mock_success_def mock_error_def)
  then show ?thesis
    by (simp add: timer_first resolved_def mock_status_def mock_success_def json_def
        del: step.simps)
qed

theorem omitted_mock_defaults_and_url_witness:
  "map_option url
     (resolved (step TimerFires
        (unreadyFetch (Some \<lparr>success = None, error = Some (JString ''no''), status = None\<rparr>)
           None (InputURL ''https://api.example.com/data'') None)))
     = Some ''https://api.example.com/data''
   \<and> map_option (json module_heap)
       (resolved (step TimerFires (unreadyFetch None None (InputRequest ''/x'') None)))
     = Some (Returns (Fulfilled defaultSuccessResponse))
   \<and> map_option url (resolved (step TimerFires (unreadyFetch None None (InputRequest ''/x'') None)))
     = Some ''[object Request]''"
  using omitted_mock_defaults_and_url
    [of None "InputRequest ''/x''" None module_heap
        "Some \<lparr>success = None, error = Some (JString ''no''), status = None\<rparr>"]
    omitted_mock_defaults_and_url
    [of None "InputURL ''https://api.example.com/data''" None module_heap
        "Some \<lparr>success = None, error = Some (JString ''no''), status = None\<rparr>"]
  by (auto simp: module_heap_defaults simp del: step.simps)


end
